theory Spec2Isabelle
  imports Complex_Main "HOL-Library.Multiset"
begin

section \<open>AutoMarket: commission resolution and the transaction lifecycle\<close>

text \<open>
  A shallow embedding of the model classes \<^verbatim>\<open>CommissionSetting\<close>, \<^verbatim>\<open>Commission\<close> and
  \<^verbatim>\<open>Transaction\<close> (backend/src/models), as they run on the object-relational mapper and
  the PostgreSQL client that the repository configures (config/database.ts).

  \<^item> A run-time value is a \<open>jsval\<close>. The TypeScript declarations say \<^verbatim>\<open>number\<close> for
    prices, bounds, values, amounts and percentages, but these are \<^verbatim>\<open>DECIMAL\<close> columns and
    the client hands a \<^verbatim>\<open>DECIMAL\<close> to the program as its decimal text: a row that was
    loaded carries strings there (\<open>8000.00\<close>, \<open>2.0000\<close>), and \<open>null\<close> for an empty
    column. A number passed by a caller is a number.
  \<^item> A number is an IEEE double: \<open>Fin x\<close> for a finite one, the two infinities and
    \<open>NaN\<close>. Every product and quotient is rounded to the nearest double, ties to even
    (\<open>round_double\<close>). The two zeros are not told apart: a zero divisor counts as \<open>+0\<close>.
  \<^item> The operators are JavaScript's: \<^verbatim>\<open>&&\<close> and \<^verbatim>\<open>if\<close> test truthiness, \<^verbatim>\<open><\<close> and
    \<^verbatim>\<open>></\<close> compare two strings as text and anything else as numbers, \<^verbatim>\<open>*\<close> and
    \<^verbatim>\<open>/\<close> convert both operands to numbers. Of the strings only decimal text (an optional
    minus sign, digits, optionally a point and digits) and the empty string are converted;
    every statement below that converts a string is about such text.
  \<^item> \<^verbatim>\<open>insert\<close> and \<^verbatim>\<open>patch\<close> first check the object they are given against
    \<^verbatim>\<open>jsonSchema\<close> and raise a \<open>ValidationError\<close> before any hook or write; what a
    \<^verbatim>\<open>format\<close> accepts is the validator's table of formats, a parameter \<open>fmt\<close>.
  \<^item> Record fields carry a prefix for their class (\<open>cs_\<close>, \<open>cm_\<close>, \<open>tx_\<close>,
    \<open>v_\<close>, \<open>u_\<close>, \<open>j_\<close>), as all records share one name space.
  \<^item> A \<^verbatim>\<open>Date\<close> is the record of what its accessors return; every \<^verbatim>\<open>new Date()\<close> is a
    reading of the clock, handed to the operation that makes it.
\<close>

subsection \<open>Dates\<close>

record JSDate =
  getTime :: nat
  getFullYear :: nat
  getMonth :: nat
  getDate :: nat

subsection \<open>Numbers\<close>

datatype jsnum = Fin real | PosInf | NegInf | NaN

text \<open>Rounding a real to the nearest integer, a tie going to the even one.\<close>

definition rne :: "real \<Rightarrow> int" where
  "rne y =
     (let f = \<lfloor>y\<rfloor>; d = y - of_int f
      in if d < 1 / 2 then f
         else if 1 / 2 < d then f + 1
         else if even f then f else f + 1)"

text \<open>
  The double nearest to a real \<open>x\<close>. A double has 53 significant bits, so in the binade
  of \<open>x\<close> the doubles are the multiples of \<open>u\<close>, two to the power of the binade's
  exponent less 52; below the normal range the spacing stays at \<open>2 powr - 1074\<close>. A
  result of magnitude \<open>2 ^ 1024\<close> or more is an infinity.
\<close>

definition round_double :: "real \<Rightarrow> jsnum" where
  "round_double x =
     (if x = 0 then Fin 0
      else let e = max (\<lfloor>log 2 \<bar>x\<bar>\<rfloor> - 52) (- 1074);
               u = 2 powr (of_int e);
               r = of_int (rne (x / u)) * u
           in if 2 ^ 1024 \<le> \<bar>r\<bar> then (if 0 < x then PosInf else NegInf) else Fin r)"

definition signed_inf :: "real \<Rightarrow> jsnum" where
  "signed_inf a = (if a = 0 then NaN else if 0 < a then PosInf else NegInf)"

fun num_times :: "jsnum \<Rightarrow> jsnum \<Rightarrow> jsnum" where
  "num_times (Fin a) (Fin b) = round_double (a * b)"
| "num_times NaN y = NaN"
| "num_times x NaN = NaN"
| "num_times (Fin a) PosInf = signed_inf a"
| "num_times (Fin a) NegInf = signed_inf (- a)"
| "num_times PosInf (Fin b) = signed_inf b"
| "num_times NegInf (Fin b) = signed_inf (- b)"
| "num_times PosInf PosInf = PosInf"
| "num_times PosInf NegInf = NegInf"
| "num_times NegInf PosInf = NegInf"
| "num_times NegInf NegInf = PosInf"

fun num_divide :: "jsnum \<Rightarrow> jsnum \<Rightarrow> jsnum" where
  "num_divide (Fin a) (Fin b) = (if b = 0 then signed_inf a else round_double (a / b))"
| "num_divide NaN y = NaN"
| "num_divide x NaN = NaN"
| "num_divide (Fin a) PosInf = Fin 0"
| "num_divide (Fin a) NegInf = Fin 0"
| "num_divide PosInf (Fin b) = (if 0 \<le> b then PosInf else NegInf)"
| "num_divide NegInf (Fin b) = (if 0 \<le> b then NegInf else PosInf)"
| "num_divide PosInf PosInf = NaN"
| "num_divide PosInf NegInf = NaN"
| "num_divide NegInf PosInf = NaN"
| "num_divide NegInf NegInf = NaN"

text \<open>\<^verbatim>\<open>a < b\<close> on numbers: false as soon as one of them is \<open>NaN\<close>.\<close>

fun num_less :: "jsnum \<Rightarrow> jsnum \<Rightarrow> bool" where
  "num_less (Fin a) (Fin b) = (a < b)"
| "num_less NaN y = False"
| "num_less x NaN = False"
| "num_less (Fin a) PosInf = True"
| "num_less (Fin a) NegInf = False"
| "num_less PosInf y = False"
| "num_less NegInf (Fin b) = True"
| "num_less NegInf PosInf = True"
| "num_less NegInf NegInf = False"

subsection \<open>Values and operators\<close>

datatype jsval = Num jsnum | Str string | Bool bool | DateObj JSDate | Null | Undefined

definition is_digit :: "char \<Rightarrow> bool" where
  "is_digit c \<longleftrightarrow> c \<in> set ''0123456789''"

definition digit_value :: "char \<Rightarrow> nat" where
  "digit_value c = (case map_of (zip ''0123456789'' [0..<10]) c of None \<Rightarrow> 0 | Some d \<Rightarrow> d)"

definition digits_value :: "string \<Rightarrow> nat" where
  "digits_value s = foldl (\<lambda>a c. 10 * a + digit_value c) 0 s"

definition unsigned_part :: "string \<Rightarrow> string" where
  "unsigned_part s = (case s of [] \<Rightarrow> [] | c # r \<Rightarrow> if c = CHR ''-'' then r else s)"

text \<open>
  Decimal text, the way the database prints a \<^verbatim>\<open>DECIMAL\<close>: an optional minus sign, at least
  one digit, and optionally a point with at least one digit after it.
\<close>

definition decimal_text :: "string \<Rightarrow> bool" where
  "decimal_text s \<longleftrightarrow>
     (let u = unsigned_part s
      in takeWhile is_digit u \<noteq> []
         \<and> (case dropWhile is_digit u of
               [] \<Rightarrow> True
             | c # fp \<Rightarrow> c = CHR ''.'' \<and> fp \<noteq> [] \<and> list_all is_digit fp))"

definition decimal_value :: "string \<Rightarrow> real" where
  "decimal_value s =
     (let u = unsigned_part s;
          fp = drop 1 (dropWhile is_digit u);
          v = real (digits_value (takeWhile is_digit u)) + real (digits_value fp) / 10 ^ length fp
      in if take 1 s = ''-'' then - v else v)"

text \<open>
  The number a string converts to: 0 for the empty string, the double nearest to its value
  for decimal text. Other strings are not met in the program's data and stand as \<open>NaN\<close>.
\<close>

definition StringToNumber :: "string \<Rightarrow> jsnum" where
  "StringToNumber s =
     (if s = [] then Fin 0
      else if decimal_text s then round_double (decimal_value s)
      else NaN)"

fun ToNumber :: "jsval \<Rightarrow> jsnum" where
  "ToNumber (Num n) = n"
| "ToNumber (Str s) = StringToNumber s"
| "ToNumber (Bool b) = Fin (if b then 1 else 0)"
| "ToNumber (DateObj d) = Fin (real (getTime d))"
| "ToNumber Null = Fin 0"
| "ToNumber Undefined = NaN"

text \<open>Truthiness: \<open>0\<close>, \<open>NaN\<close>, the empty string, \<open>null\<close> and \<open>undefined\<close> are falsy.\<close>

fun truthy :: "jsval \<Rightarrow> bool" where
  "truthy (Num (Fin x)) = (x \<noteq> 0)"
| "truthy (Num NaN) = False"
| "truthy (Num PosInf) = True"
| "truthy (Num NegInf) = True"
| "truthy (Str s) = (s \<noteq> [])"
| "truthy (Bool b) = b"
| "truthy (DateObj d) = True"
| "truthy Null = False"
| "truthy Undefined = False"

text \<open>Two strings are compared as text, character code by character code.\<close>

fun str_less :: "string \<Rightarrow> string \<Rightarrow> bool" where
  "str_less [] [] = False"
| "str_less [] (y # ys) = True"
| "str_less (x # xs) [] = False"
| "str_less (x # xs) (y # ys) =
     ((of_char x :: nat) < of_char y \<or> (x = y \<and> str_less xs ys))"

text \<open>\<^verbatim>\<open>a < b\<close>; \<^verbatim>\<open>a > b\<close> is \<open>js_lt b a\<close>.\<close>

fun js_lt :: "jsval \<Rightarrow> jsval \<Rightarrow> bool" where
  "js_lt (Str s) (Str t) = str_less s t"
| "js_lt a b = num_less (ToNumber a) (ToNumber b)"

definition js_times :: "jsval \<Rightarrow> jsval \<Rightarrow> jsval" where
  "js_times a b = Num (num_times (ToNumber a) (ToNumber b))"

definition js_divide :: "jsval \<Rightarrow> jsval \<Rightarrow> jsval" where
  "js_divide a b = Num (num_divide (ToNumber a) (ToNumber b))"

subsection \<open>Users and commission settings\<close>

datatype UserRole = BUYER | SELLER | DEALER | ADMIN

record User =
  u_id :: string
  u_role :: UserRole

datatype CommissionType = PERCENTAGE | FIXED

record CommissionSetting =
  cs_id :: string
  cs_name :: string
  cs_description :: "string option"
  cs_type :: CommissionType
  cs_value :: jsval
  cs_min_price :: jsval
  cs_max_price :: jsval
  cs_user_role :: "UserRole option"
  cs_is_active :: bool
  cs_priority :: int
  cs_created_at :: JSDate

text \<open>
  \<^verbatim>\<open>appliesToPrice\<close>: \<^verbatim>\<open>this.min_price && price < this.min_price\<close> tests a bound only
  when it is truthy, and then strictly.
\<close>

definition appliesToPrice :: "CommissionSetting \<Rightarrow> jsval \<Rightarrow> bool" where
  "appliesToPrice s price =
     (if truthy (cs_min_price s) \<and> js_lt price (cs_min_price s) then False
      else if truthy (cs_max_price s) \<and> js_lt (cs_max_price s) price then False
      else True)"

text \<open>\<^verbatim>\<open>appliesToRole\<close>: a setting without a role applies to every role, also to none.\<close>

definition appliesToRole :: "CommissionSetting \<Rightarrow> UserRole option \<Rightarrow> bool" where
  "appliesToRole s role =
     (case cs_user_role s of
        None \<Rightarrow> True
      | Some r \<Rightarrow> (role = Some r))"


text \<open>A bound as it is loaded: decimal text, or \<open>null\<close> for an empty column.\<close>

definition loaded_bound :: "jsval \<Rightarrow> bool" where
  "loaded_bound v = (case v of Str s \<Rightarrow> decimal_text s | Null \<Rightarrow> True | _ \<Rightarrow> False)"

subsection \<open>The ordered read of the active settings\<close>

text \<open>
  \<^verbatim>\<open>query().where('is_active', true).orderBy('priority', 'desc').orderBy('created_at', 'asc')\<close>
  is answered by the database. What the query promises is its contract: the rows returned
  are the active rows of the table, each once, and a row never comes after one that the
  two sort keys put strictly behind it. Rows equal in both keys come in an order the query
  does not fix. The resolver below takes the rows returned as its argument \<open>settings\<close>.
\<close>

definition orderBy_le :: "CommissionSetting \<Rightarrow> CommissionSetting \<Rightarrow> bool" where
  "orderBy_le a b \<longleftrightarrow>
     cs_priority b < cs_priority a
     \<or> (cs_priority a = cs_priority b \<and> getTime (cs_created_at a) \<le> getTime (cs_created_at b))"

definition active_ordered :: "CommissionSetting list \<Rightarrow> CommissionSetting list \<Rightarrow> bool" where
  "active_ordered table settings \<longleftrightarrow>
     mset settings = mset (filter cs_is_active table) \<and> sorted_wrt orderBy_le settings"

text \<open>\<^verbatim>\<open>findApplicable\<close>: the loop over the rows returned, first hit wins.\<close>

fun findApplicable :: "CommissionSetting list \<Rightarrow> jsval \<Rightarrow> UserRole option \<Rightarrow> CommissionSetting option" where
  "findApplicable [] price userRole = None"
| "findApplicable (setting # settings) price userRole =
     (if appliesToPrice setting price \<and> appliesToRole setting userRole then Some setting
      else findApplicable settings price userRole)"

subsection \<open>Transactions, vehicles and commissions\<close>

datatype TransactionStatus = PENDING | PROCESSING | COMPLETED | CANCELLED | REFUNDED

datatype VehicleStatus = AVAILABLE | RESERVED | SOLD | INACTIVE

text \<open>
  \<open>tx_seller\<close> and \<open>cm_transaction\<close> are relations: \<open>None\<close> when the relation was
  not fetched with the object. Of a vehicle only the columns that the lifecycle
  writes, and those that identify it, are kept. The table of commissions has no
  \<open>updated_at\<close> column.
\<close>

record Transaction =
  tx_id :: string
  tx_transaction_number :: string
  tx_vehicle_id :: string
  tx_buyer_id :: string
  tx_seller_id :: string
  tx_price :: jsval
  tx_commission_amount :: jsval
  tx_net_amount :: jsval
  tx_status :: TransactionStatus
  tx_payment_method :: "string option"
  tx_payment_reference :: "string option"
  tx_notes :: "string option"
  tx_completed_at :: "JSDate option"
  tx_cancelled_at :: "JSDate option"
  tx_cancelled_reason :: "string option"
  tx_created_at :: JSDate
  tx_updated_at :: JSDate
  tx_seller :: "User option"

record Vehicle =
  v_id :: string
  v_seller_id :: string
  v_price :: jsval
  v_status :: VehicleStatus
  v_sold_at :: "JSDate option"
  v_updated_at :: JSDate

record Commission =
  cm_id :: string
  cm_transaction_id :: string
  cm_commission_setting_id :: "string option"
  cm_amount :: jsval
  cm_percentage :: jsval
  cm_is_paid :: bool
  cm_paid_at :: "JSDate option"
  cm_payment_reference :: "string option"
  cm_created_at :: JSDate
  cm_transaction :: "Transaction option"

subsection \<open>Resolving the commission of a transaction\<close>

record Calculation =
  r_amount :: jsval
  r_percentage :: jsval
  r_settingId :: "string option"

text \<open>
  \<^verbatim>\<open>Commission.calculateCommission\<close>; \<open>settings\<close> is what the query inside
  \<^verbatim>\<open>findApplicable\<close> returned. \<^verbatim>\<open>transaction.seller?.role\<close> is absent when the seller
  was not fetched. The literal \<^verbatim>\<open>0.05\<close> is the double nearest to a twentieth. For a fixed
  setting the amount is the setting's value as it is, a string when the row was loaded.
\<close>

definition calculateCommission :: "CommissionSetting list \<Rightarrow> Transaction \<Rightarrow> Calculation" where
  "calculateCommission settings transaction =
     (case findApplicable settings (tx_price transaction) (map_option u_role (tx_seller transaction)) of
        None \<Rightarrow>
          \<lparr>r_amount = js_times (tx_price transaction) (Num (round_double (5 / 100))),
           r_percentage = Num (Fin 5), r_settingId = None\<rparr>
      | Some setting \<Rightarrow>
          (let amount = (if cs_type setting = PERCENTAGE
                         then js_times (tx_price transaction)
                                (js_divide (cs_value setting) (Num (Fin 100)))
                         else cs_value setting);
               percentage = (if cs_type setting = PERCENTAGE
                             then cs_value setting
                             else js_times (js_divide amount (tx_price transaction)) (Num (Fin 100)))
           in \<lparr>r_amount = amount, r_percentage = percentage, r_settingId = Some (cs_id setting)\<rparr>))"

text \<open>
  \<^verbatim>\<open>getEffectivePercentage\<close>: \<^verbatim>\<open>if (this.percentage)\<close> is truthiness, and what is
  returned then is the stored value itself.
\<close>

definition getEffectivePercentage :: "Commission \<Rightarrow> jsval" where
  "getEffectivePercentage c =
     (if truthy (cm_percentage c) then cm_percentage c
      else case cm_transaction c of
             None \<Rightarrow> Num (Fin 0)
           | Some t \<Rightarrow>
               if js_lt (Num (Fin 0)) (tx_price t)
               then js_times (js_divide (cm_amount c) (tx_price t)) (Num (Fin 100))
               else Num (Fin 0))"

subsection \<open>Checking an object against a schema\<close>

datatype jstype = T_string | T_number | T_integer | T_boolean | T_null | T_object

datatype keyword =
    Type "jstype list"
  | MaxLength nat
  | MinLength nat
  | Minimum real
  | Maximum real
  | Format string
  | Enum "string list"

type_synonym schema = "(string \<times> keyword list) list"

type_synonym object = "(string \<times> jsval) list"

fun has_type :: "jstype \<Rightarrow> jsval \<Rightarrow> bool" where
  "has_type T_string v = (case v of Str s \<Rightarrow> True | _ \<Rightarrow> False)"
| "has_type T_number v = (case v of Num (Fin x) \<Rightarrow> True | _ \<Rightarrow> False)"
| "has_type T_integer v = (case v of Num (Fin x) \<Rightarrow> of_int \<lfloor>x\<rfloor> = x | _ \<Rightarrow> False)"
| "has_type T_boolean v = (case v of Bool b \<Rightarrow> True | _ \<Rightarrow> False)"
| "has_type T_null v = (case v of Null \<Rightarrow> True | _ \<Rightarrow> False)"
| "has_type T_object v = (case v of DateObj d \<Rightarrow> True | _ \<Rightarrow> False)"

text \<open>
  A keyword other than \<open>type\<close> and \<open>enum\<close> bears on values of its own kind only: a
  length or a format on strings, a bound on numbers. \<open>fmt f s\<close> says whether the string
  \<open>s\<close> has the format named \<open>f\<close>.
\<close>

fun keyword_ok :: "(string \<Rightarrow> string \<Rightarrow> bool) \<Rightarrow> keyword \<Rightarrow> jsval \<Rightarrow> bool" where
  "keyword_ok fmt (Type ts) v = list_ex (\<lambda>t. has_type t v) ts"
| "keyword_ok fmt (MaxLength n) v = (case v of Str s \<Rightarrow> length s \<le> n | _ \<Rightarrow> True)"
| "keyword_ok fmt (MinLength n) v = (case v of Str s \<Rightarrow> n \<le> length s | _ \<Rightarrow> True)"
| "keyword_ok fmt (Minimum m) v = (case v of Num (Fin x) \<Rightarrow> m \<le> x | _ \<Rightarrow> True)"
| "keyword_ok fmt (Maximum m) v = (case v of Num (Fin x) \<Rightarrow> x \<le> m | _ \<Rightarrow> True)"
| "keyword_ok fmt (Format f) v = (case v of Str s \<Rightarrow> fmt f s | _ \<Rightarrow> True)"
| "keyword_ok fmt (Enum xs) v = (case v of Str s \<Rightarrow> s \<in> set xs | _ \<Rightarrow> False)"

text \<open>The properties of an object that fail their schema, and the required ones it lacks.\<close>

definition invalid_props :: "(string \<Rightarrow> string \<Rightarrow> bool) \<Rightarrow> schema \<Rightarrow> object \<Rightarrow> string set" where
  "invalid_props fmt sch obj =
     set (map fst (filter (\<lambda>(p, v). case map_of sch p of
                                        None \<Rightarrow> False
                                      | Some ks \<Rightarrow> \<not> list_all (\<lambda>k. keyword_ok fmt k v) ks) obj))"


text \<open>
  What an operation can raise. \<open>InvalidState\<close> is the error the specification names for a
  transition that violates its guard; nothing in the code raises it.
\<close>

datatype exn = ValidationError "string set" | DBError string | InvalidState

subsection \<open>The schemas and the tables\<close>

definition status_name :: "TransactionStatus \<Rightarrow> string" where
  "status_name st =
     (case st of PENDING \<Rightarrow> ''pending'' | PROCESSING \<Rightarrow> ''processing''
      | COMPLETED \<Rightarrow> ''completed'' | CANCELLED \<Rightarrow> ''cancelled'' | REFUNDED \<Rightarrow> ''refunded'')"

definition vehicle_status_name :: "VehicleStatus \<Rightarrow> string" where
  "vehicle_status_name st =
     (case st of AVAILABLE \<Rightarrow> ''available'' | RESERVED \<Rightarrow> ''reserved''
      | SOLD \<Rightarrow> ''sold'' | INACTIVE \<Rightarrow> ''inactive'')"

definition Transaction_jsonSchema :: schema where
  "Transaction_jsonSchema =
     [(''id'', [Type [T_string], Format ''uuid'']),
      (''transaction_number'', [Type [T_string], MaxLength 50]),
      (''vehicle_id'', [Type [T_string], Format ''uuid'']),
      (''buyer_id'', [Type [T_string], Format ''uuid'']),
      (''seller_id'', [Type [T_string], Format ''uuid'']),
      (''price'', [Type [T_number], Minimum 0]),
      (''commission_amount'', [Type [T_number], Minimum 0]),
      (''net_amount'', [Type [T_number], Minimum 0]),
      (''status'', [Type [T_string],
                    Enum [''pending'', ''processing'', ''completed'', ''cancelled'', ''refunded'']]),
      (''payment_method'', [Type [T_string, T_null], MaxLength 50]),
      (''payment_reference'', [Type [T_string, T_null], MaxLength 255]),
      (''notes'', [Type [T_string, T_null]]),
      (''completed_at'', [Type [T_string, T_null], Format ''date-time'']),
      (''cancelled_at'', [Type [T_string, T_null], Format ''date-time'']),
      (''cancelled_reason'', [Type [T_string, T_null]]),
      (''created_at'', [Type [T_string], Format ''date-time'']),
      (''updated_at'', [Type [T_string], Format ''date-time''])]"


definition Commission_jsonSchema :: schema where
  "Commission_jsonSchema =
     [(''id'', [Type [T_string], Format ''uuid'']),
      (''transaction_id'', [Type [T_string], Format ''uuid'']),
      (''commission_setting_id'', [Type [T_string, T_null], Format ''uuid'']),
      (''amount'', [Type [T_number], Minimum 0]),
      (''percentage'', [Type [T_number, T_null], Minimum 0, Maximum 100]),
      (''is_paid'', [Type [T_boolean]]),
      (''paid_at'', [Type [T_string, T_null], Format ''date-time'']),
      (''payment_reference'', [Type [T_string, T_null], MaxLength 255]),
      (''created_at'', [Type [T_string], Format ''date-time''])]"

text \<open>Of the schema of a vehicle, the properties that the lifecycle patches.\<close>

definition Vehicle_jsonSchema :: schema where
  "Vehicle_jsonSchema =
     [(''status'', [Type [T_string], Enum [''available'', ''reserved'', ''sold'', ''inactive'']]),
      (''sold_at'', [Type [T_string, T_null], Format ''date-time'']),
      (''updated_at'', [Type [T_string], Format ''date-time''])]"

text \<open>The columns of the tables, those of a vehicle as far as they are kept here.\<close>

definition transactions_columns :: "string list" where
  "transactions_columns =
     [''id'', ''transaction_number'', ''vehicle_id'', ''buyer_id'', ''seller_id'', ''price'',
      ''commission_amount'', ''net_amount'', ''status'', ''payment_method'', ''payment_reference'',
      ''notes'', ''completed_at'', ''cancelled_at'', ''cancelled_reason'', ''created_at'',
      ''updated_at'']"

definition vehicles_columns :: "string list" where
  "vehicles_columns = [''id'', ''seller_id'', ''price'', ''status'', ''sold_at'', ''updated_at'']"

definition commissions_columns :: "string list" where
  "commissions_columns =
     [''id'', ''transaction_id'', ''commission_setting_id'', ''amount'', ''percentage'', ''is_paid'',
      ''paid_at'', ''payment_reference'', ''created_at'']"

record world =
  transactions :: "Transaction list"
  vehicles :: "Vehicle list"
  commissions :: "Commission list"

subsection \<open>Patching rows\<close>

text \<open>
  \<^verbatim>\<open>query().where(...).patch(obj)\<close>. The object is checked against the schema first, and
  a failure is raised with no row written. Then the \<^verbatim>\<open>$beforeUpdate\<close> hook of
  \<^verbatim>\<open>BaseModel\<close> adds \<open>updated_at\<close>, and the update is sent: it fails when it names a
  column that the table does not have, otherwise every row selected is updated (by \<open>upd\<close>,
  which writes what \<open>obj\<close> and the hook say) and the number of rows updated is returned.
\<close>

definition patch ::
  "(string \<Rightarrow> string \<Rightarrow> bool) \<Rightarrow> schema \<Rightarrow> string list \<Rightarrow> object
     \<Rightarrow> ('r \<Rightarrow> bool) \<Rightarrow> ('r \<Rightarrow> 'r) \<Rightarrow> 'r list \<Rightarrow> (exn + nat) \<times> 'r list" where
  "patch fmt sch columns obj sel upd rows =
     (if invalid_props fmt sch obj \<noteq> {} then (Inl (ValidationError (invalid_props fmt sch obj)), rows)
      else if \<not> set (map fst obj @ [''updated_at'']) \<subseteq> set columns
      then (Inl (DBError ''undefined column''), rows)
      else (Inr (length (filter sel rows)), map (\<lambda>r. if sel r then upd r else r) rows))"

definition canBeCancelled :: "Transaction \<Rightarrow> bool" where
  "canBeCancelled this \<longleftrightarrow> tx_status this \<in> set [PENDING, PROCESSING]"

definition canBeCompleted :: "Transaction \<Rightarrow> bool" where
  "canBeCompleted this \<longleftrightarrow> tx_status this = PROCESSING"

text \<open>
  The lifecycle methods of an instance \<open>this\<close>; each returns what it raised, if anything,
  and the tables as they are afterwards. \<open>clk n\<close> is the \<open>n\<close>-th reading of the clock
  during the call: the \<^verbatim>\<open>new Date()\<close> of a patch object is read before the patch runs
  its hook. \<^verbatim>\<open>this.$query()\<close> selects the row with the id of \<open>this\<close>. None of the three
  methods looks at \<open>tx_status this\<close>. The method \<^verbatim>\<open>complete\<close> is \<open>complete_tx\<close> here,
  \<open>complete\<close> being a constant of the library.
\<close>

definition complete_tx ::
  "(string \<Rightarrow> string \<Rightarrow> bool) \<Rightarrow> world \<Rightarrow> Transaction \<Rightarrow> string \<Rightarrow> (nat \<Rightarrow> JSDate)
     \<Rightarrow> (exn + unit) \<times> world" where
  "complete_tx fmt w this paymentReference clk =
     (case patch fmt Transaction_jsonSchema transactions_columns
             [(''status'', Str (status_name COMPLETED)),
              (''payment_reference'', Str paymentReference),
              (''completed_at'', DateObj (clk 0))]
             (\<lambda>r. tx_id r = tx_id this)
             (\<lambda>r. r\<lparr>tx_status := COMPLETED,
                     tx_payment_reference := Some paymentReference,
                     tx_completed_at := Some (clk 0),
                     tx_updated_at := clk 1\<rparr>)
             (transactions w) of
        (Inl e, rows) \<Rightarrow> (Inl e, w)
      | (Inr n, rows) \<Rightarrow>
          (case patch fmt Vehicle_jsonSchema vehicles_columns
                  [(''status'', Str (vehicle_status_name SOLD)), (''sold_at'', DateObj (clk 2))]
                  (\<lambda>v. v_id v = tx_vehicle_id this)
                  (\<lambda>v. v\<lparr>v_status := SOLD, v_sold_at := Some (clk 2), v_updated_at := clk 3\<rparr>)
                  (vehicles w) of
             (Inl e, vrows) \<Rightarrow> (Inl e, w\<lparr>transactions := rows\<rparr>)
           | (Inr m, vrows) \<Rightarrow> (Inr (), w\<lparr>transactions := rows, vehicles := vrows\<rparr>)))"

definition cancel ::
  "(string \<Rightarrow> string \<Rightarrow> bool) \<Rightarrow> world \<Rightarrow> Transaction \<Rightarrow> string \<Rightarrow> (nat \<Rightarrow> JSDate)
     \<Rightarrow> (exn + unit) \<times> world" where
  "cancel fmt w this reason clk =
     (case patch fmt Transaction_jsonSchema transactions_columns
             [(''status'', Str (status_name CANCELLED)),
              (''cancelled_reason'', Str reason),
              (''cancelled_at'', DateObj (clk 0))]
             (\<lambda>r. tx_id r = tx_id this)
             (\<lambda>r. r\<lparr>tx_status := CANCELLED,
                     tx_cancelled_reason := Some reason,
                     tx_cancelled_at := Some (clk 0),
                     tx_updated_at := clk 1\<rparr>)
             (transactions w) of
        (Inl e, rows) \<Rightarrow> (Inl e, w)
      | (Inr n, rows) \<Rightarrow>
          (case patch fmt Vehicle_jsonSchema vehicles_columns
                  [(''status'', Str (vehicle_status_name AVAILABLE))]
                  (\<lambda>v. v_id v = tx_vehicle_id this)
                  (\<lambda>v. v\<lparr>v_status := AVAILABLE, v_updated_at := clk 2\<rparr>)
                  (vehicles w) of
             (Inl e, vrows) \<Rightarrow> (Inl e, w\<lparr>transactions := rows\<rparr>)
           | (Inr m, vrows) \<Rightarrow> (Inr (), w\<lparr>transactions := rows, vehicles := vrows\<rparr>)))"

definition process ::
  "(string \<Rightarrow> string \<Rightarrow> bool) \<Rightarrow> world \<Rightarrow> Transaction \<Rightarrow> (nat \<Rightarrow> JSDate)
     \<Rightarrow> (exn + unit) \<times> world" where
  "process fmt w this clk =
     (case patch fmt Transaction_jsonSchema transactions_columns
             [(''status'', Str (status_name PROCESSING))]
             (\<lambda>r. tx_id r = tx_id this)
             (\<lambda>r. r\<lparr>tx_status := PROCESSING, tx_updated_at := clk 0\<rparr>)
             (transactions w) of
        (Inl e, rows) \<Rightarrow> (Inl e, w)
      | (Inr n, rows) \<Rightarrow> (Inr (), w\<lparr>transactions := rows\<rparr>))"

text \<open>\<^verbatim>\<open>Commission.payBatch\<close>: the number of rows patched is returned.\<close>

definition payBatch ::
  "(string \<Rightarrow> string \<Rightarrow> bool) \<Rightarrow> world \<Rightarrow> string list \<Rightarrow> string \<Rightarrow> (nat \<Rightarrow> JSDate)
     \<Rightarrow> (exn + nat) \<times> world" where
  "payBatch fmt w commissionIds paymentReference clk =
     (case patch fmt Commission_jsonSchema commissions_columns
             [(''is_paid'', Bool True),
              (''paid_at'', DateObj (clk 0)),
              (''payment_reference'', Str paymentReference)]
             (\<lambda>c. cm_id c \<in> set commissionIds \<and> cm_is_paid c = False)
             (\<lambda>c. c\<lparr>cm_is_paid := True,
                     cm_paid_at := Some (clk 0),
                     cm_payment_reference := Some paymentReference\<rparr>)
             (commissions w) of
        (Inl e, rows) \<Rightarrow> (Inl e, w)
      | (Inr n, rows) \<Rightarrow> (Inr n, w\<lparr>commissions := rows\<rparr>))"

subsection \<open>Creating a transaction\<close>

text \<open>
  \<^verbatim>\<open>String(n)\<close> for a natural number: its decimal digits. \<open>digit_char\<close> is only
  applied to a number below 10.
\<close>

definition digit_char :: "nat \<Rightarrow> char" where
  "digit_char d = ''0123456789'' ! d"

fun String_nat :: "nat \<Rightarrow> string" where
  "String_nat n = (if n < 10 then [digit_char n] else String_nat (n div 10) @ [digit_char (n mod 10)])"

declare String_nat.simps [simp del]

definition padStart :: "nat \<Rightarrow> char \<Rightarrow> string \<Rightarrow> string" where
  "padStart n c s = replicate (n - length s) c @ s"

text \<open>\<^verbatim>\<open>s.substring(i, j)\<close> for \<open>i \<le> j\<close>: indices beyond the end are cut to the length.\<close>

definition substring :: "nat \<Rightarrow> nat \<Rightarrow> string \<Rightarrow> string" where
  "substring i j s = take (j - i) (drop i s)"

text \<open>
  \<^verbatim>\<open>toUpperCase\<close> on the characters that occur here: the letters \<open>a\<close> to \<open>z\<close> go to
  \<open>A\<close> to \<open>Z\<close>, digits and punctuation stay.
\<close>

definition toUpperCase_char :: "char \<Rightarrow> char" where
  "toUpperCase_char c =
     (case map_of (zip ''abcdefghijklmnopqrstuvwxyz'' ''ABCDEFGHIJKLMNOPQRSTUVWXYZ'') c of
        None \<Rightarrow> c
      | Some u \<Rightarrow> u)"

definition toUpperCase :: "string \<Rightarrow> string" where
  "toUpperCase s = map toUpperCase_char s"

text \<open>
  \<^verbatim>\<open>generateTransactionNumber\<close>. \<open>date\<close> is the \<^verbatim>\<open>new Date()\<close> it reads; \<open>random36\<close>
  is the string \<^verbatim>\<open>Math.random().toString(36)\<close>. That string is \<open>0\<close> when the random
  number is 0, and otherwise \<open>0.\<close> followed by the base-36 digits of the fraction,
  as many as the number needs: \<open>0.5\<close> is \<open>0.i\<close>.
\<close>

definition generateTransactionNumber :: "JSDate \<Rightarrow> string \<Rightarrow> string" where
  "generateTransactionNumber date random36 =
     (let year = String_nat (getFullYear date);
          month = padStart 2 (CHR ''0'') (String_nat (getMonth date + 1));
          day = padStart 2 (CHR ''0'') (String_nat (getDate date));
          random = toUpperCase (substring 2 8 random36)
      in ''TXN-'' @ year @ month @ day @ ''-'' @ random)"

definition is_base36_lower :: "char \<Rightarrow> bool" where
  "is_base36_lower c \<longleftrightarrow> c \<in> set ''0123456789abcdefghijklmnopqrstuvwxyz''"


text \<open>What \<^verbatim>\<open>Math.random().toString(36)\<close> can be.\<close>

definition is_random36 :: "string \<Rightarrow> bool" where
  "is_random36 r \<longleftrightarrow>
     r = ''0'' \<or> (take 2 r = ''0.'' \<and> drop 2 r \<noteq> [] \<and> list_all is_base36_lower (drop 2 r))"







subsection \<open>The bounds as the specification words them\<close>

text \<open>
  Section 4.1 of the specification: the price is within the optional
  \<open>[min_price, max_price]\<close> bounds, an absent bound being unbounded on that side.
  This follows the specification, not the code; the bounds are read by their decimal
  value.
\<close>

definition spec_price_within_bounds :: "CommissionSetting \<Rightarrow> real \<Rightarrow> bool" where
  "spec_price_within_bounds s price \<longleftrightarrow>
     (case cs_min_price s of Str m \<Rightarrow> decimal_value m \<le> price | _ \<Rightarrow> True)
     \<and> (case cs_max_price s of Str M \<Rightarrow> price \<le> decimal_value M | _ \<Rightarrow> True)"

subsection \<open>The transaction number as the specification words it\<close>


subsection \<open>Concrete rows\<close>

definition date0 :: JSDate where
  "date0 = \<lparr>getTime = 1700000000000, getFullYear = 2023, getMonth = 10, getDate = 14\<rparr>"

definition clk0 :: "nat \<Rightarrow> JSDate" where
  "clk0 n = date0\<lparr>getTime := 1700000000000 + n\<rparr>"

text \<open>
  The four settings that \<^verbatim>\<open>CommissionSetting.createDefault\<close> inserts, in its order, as
  they are loaded afterwards: the value is \<^verbatim>\<open>DECIMAL(10, 4)\<close>, a bound
  \<^verbatim>\<open>DECIMAL(12, 2)\<close>.
\<close>

definition cs_standard :: CommissionSetting where
  "cs_standard =
     \<lparr>cs_id = ''cs-standard'', cs_name = ''Comision estandar'',
      cs_description = Some ''Comision por defecto para todas las ventas'',
      cs_type = PERCENTAGE, cs_value = Str ''5.0000'', cs_min_price = Null, cs_max_price = Null,
      cs_user_role = None, cs_is_active = True, cs_priority = 0, cs_created_at = clk0 1\<rparr>"

definition cs_premium :: CommissionSetting where
  "cs_premium =
     \<lparr>cs_id = ''cs-premium'', cs_name = ''Comision premium'',
      cs_description = Some ''Comision reducida para dealers premium'',
      cs_type = PERCENTAGE, cs_value = Str ''3.0000'', cs_min_price = Null, cs_max_price = Null,
      cs_user_role = Some DEALER, cs_is_active = True, cs_priority = 10, cs_created_at = clk0 2\<rparr>"

definition cs_economy :: CommissionSetting where
  "cs_economy =
     \<lparr>cs_id = ''cs-economy'', cs_name = ''Comision vehiculos economicos'',
      cs_description = Some ''Comision fija para vehiculos de bajo precio'',
      cs_type = FIXED, cs_value = Str ''500.0000'', cs_min_price = Null,
      cs_max_price = Str ''10000.00'',
      cs_user_role = None, cs_is_active = True, cs_priority = 5, cs_created_at = clk0 3\<rparr>"

definition cs_luxury :: CommissionSetting where
  "cs_luxury =
     \<lparr>cs_id = ''cs-luxury'', cs_name = ''Comision vehiculos de lujo'',
      cs_description = Some ''Comision especial para vehiculos de alto valor'',
      cs_type = PERCENTAGE, cs_value = Str ''2.0000'', cs_min_price = Str ''50000.00'',
      cs_max_price = Null,
      cs_user_role = None, cs_is_active = True, cs_priority = 15, cs_created_at = clk0 4\<rparr>"

definition default_table :: "CommissionSetting list" where
  "default_table = [cs_standard, cs_premium, cs_economy, cs_luxury]"

definition default_settings :: "CommissionSetting list" where
  "default_settings = [cs_luxury, cs_premium, cs_economy, cs_standard]"

text \<open>
  A setting whose stored upper bound is 0, a setting of 7 percent, and two settings equal
  in both sort keys.
\<close>

definition cs_zero_cap :: CommissionSetting where
  "cs_zero_cap =
     \<lparr>cs_id = ''cs-zero-cap'', cs_name = ''zero cap'', cs_description = None,
      cs_type = PERCENTAGE, cs_value = Str ''3.0000'', cs_min_price = Null,
      cs_max_price = Str ''0.00'',
      cs_user_role = None, cs_is_active = True, cs_priority = 0, cs_created_at = clk0 1\<rparr>"


definition cs_tie_a :: CommissionSetting where
  "cs_tie_a =
     \<lparr>cs_id = ''cs-tie-a'', cs_name = ''tie a'', cs_description = None,
      cs_type = PERCENTAGE, cs_value = Str ''3.0000'', cs_min_price = Null, cs_max_price = Null,
      cs_user_role = None, cs_is_active = True, cs_priority = 0, cs_created_at = clk0 1\<rparr>"

definition cs_tie_b :: CommissionSetting where
  "cs_tie_b =
     \<lparr>cs_id = ''cs-tie-b'', cs_name = ''tie b'', cs_description = None,
      cs_type = PERCENTAGE, cs_value = Str ''5.0000'', cs_min_price = Null, cs_max_price = Null,
      cs_user_role = None, cs_is_active = True, cs_priority = 0, cs_created_at = clk0 1\<rparr>"

text \<open>A transaction as it is loaded, with its seller, a dealer.\<close>

definition tx1 :: Transaction where
  "tx1 =
     \<lparr>tx_id = ''t1'', tx_transaction_number = ''TXN-20231114-4FZYO8'', tx_vehicle_id = ''v1'',
      tx_buyer_id = ''u1'', tx_seller_id = ''u2'', tx_price = Str ''20000.00'',
      tx_commission_amount = Str ''0.00'', tx_net_amount = Str ''20000.00'', tx_status = PENDING,
      tx_payment_method = None, tx_payment_reference = None, tx_notes = None,
      tx_completed_at = None, tx_cancelled_at = None, tx_cancelled_reason = None,
      tx_created_at = date0, tx_updated_at = date0,
      tx_seller = Some \<lparr>u_id = ''u2'', u_role = DEALER\<rparr>\<rparr>"

definition veh1 :: Vehicle where
  "veh1 = \<lparr>v_id = ''v1'', v_seller_id = ''u2'', v_price = Str ''20000.00'', v_status = RESERVED,
            v_sold_at = None, v_updated_at = date0\<rparr>"

definition veh2 :: Vehicle where
  "veh2 = \<lparr>v_id = ''v2'', v_seller_id = ''u2'', v_price = Str ''9000.00'', v_status = AVAILABLE,
            v_sold_at = None, v_updated_at = date0\<rparr>"

definition cm1 :: Commission where
  "cm1 = \<lparr>cm_id = ''c1'', cm_transaction_id = ''t1'', cm_commission_setting_id = Some ''cs-premium'',
           cm_amount = Str ''600.00'', cm_percentage = Str ''3.00'', cm_is_paid = False,
           cm_paid_at = None, cm_payment_reference = None, cm_created_at = date0,
           cm_transaction = None\<rparr>"

definition cm2 :: Commission where
  "cm2 = \<lparr>cm_id = ''c2'', cm_transaction_id = ''t2'', cm_commission_setting_id = None,
           cm_amount = Str ''450.00'', cm_percentage = Str ''5.00'', cm_is_paid = True,
           cm_paid_at = Some date0, cm_payment_reference = Some ''pay-0'', cm_created_at = date0,
           cm_transaction = None\<rparr>"

text \<open>
  A commission whose stored percentage is 0, loaded with its transaction of price 8000.
\<close>

definition cm3 :: Commission where
  "cm3 = \<lparr>cm_id = ''c3'', cm_transaction_id = ''t3'', cm_commission_setting_id = None,
           cm_amount = Str ''500.00'', cm_percentage = Str ''0.00'', cm_is_paid = False,
           cm_paid_at = None, cm_payment_reference = None, cm_created_at = date0,
           cm_transaction = Some (tx1\<lparr>tx_id := ''t3'', tx_price := Str ''8000.00''\<rparr>)\<rparr>"

definition world0 :: world where
  "world0 = \<lparr>transactions = [tx1, tx1\<lparr>tx_id := ''t2'', tx_vehicle_id := ''v2''\<rparr>],
              vehicles = [veh1, veh2], commissions = [cm1, cm2, cm3]\<rparr>"

text \<open>
  A table of formats for the examples: a \<open>uuid\<close> is 36 characters, hyphens at the four
  usual places and hexadecimal digits elsewhere; the other formats accept nothing.
\<close>

definition is_uuid :: "string \<Rightarrow> bool" where
  "is_uuid s \<longleftrightarrow>
     length s = 36
     \<and> list_all (\<lambda>i. if i \<in> set [8, 13, 18, 23] then s ! i = CHR ''-''
                       else s ! i \<in> set ''0123456789abcdefABCDEF'') [0..<36]"

definition formats0 :: "string \<Rightarrow> string \<Rightarrow> bool" where
  "formats0 f s \<longleftrightarrow> f = ''uuid'' \<and> is_uuid s"


section \<open>Rounding to a double\<close>

lemma rne_near:
  assumes "\<bar>y - of_int n\<bar> < 1 / 2"
  shows "rne y = n"
proof (cases "of_int n \<le> y")
  case True
  with assms have "\<lfloor>y\<rfloor> = n" by (intro floor_unique) auto
  with assms True show ?thesis by (simp add: rne_def Let_def)
next
  case False
  with assms have f: "\<lfloor>y\<rfloor> = n - 1" by (intro floor_unique) auto
  with assms False have "1 / 2 < y - of_int \<lfloor>y\<rfloor>" by simp
  with f show ?thesis by (simp add: rne_def Let_def)
qed


lemma rne_between:
  assumes "of_int a \<le> y" "y \<le> of_int b"
  shows "a \<le> rne y" "rne y \<le> b"
proof -
  have fl: "a \<le> \<lfloor>y\<rfloor>" using assms(1) by (simp add: le_floor_iff)
  have "of_int \<lfloor>y\<rfloor> \<le> y" "y < of_int \<lfloor>y\<rfloor> + 1" by linarith+
  show "a \<le> rne y" using fl by (auto simp: rne_def Let_def)
  show "rne y \<le> b"
  proof (cases "y = of_int b")
    case True
    then show ?thesis by (simp add: rne_def Let_def)
  next
    case False
    with assms(2) have "y < of_int b" by simp
    then have "\<lfloor>y\<rfloor> < b" by (simp add: floor_less_iff)
    then show ?thesis by (auto simp: rne_def Let_def)
  qed
qed

text \<open>
  Evaluating \<open>round_double\<close> at a positive real: with \<open>m\<close> chosen so that \<open>x * 2 ^ m\<close>
  lies between \<open>2 ^ 52\<close> and \<open>2 ^ 53\<close>, the result is the integer nearest to that
  product, scaled back.
\<close>

lemma round_double_evalI:
  assumes pos: "0 < x" and m: "m \<le> 1074"
    and lo: "2 ^ 52 \<le> x * 2 ^ m" and hi: "x * 2 ^ m < 2 ^ 53"
    and near: "\<bar>x * 2 ^ m - of_int n\<bar> < 1 / 2"
    and r: "r = of_int n / 2 ^ m"
  shows "round_double x = Fin r"
proof -
  let ?k = "52 - int m"
  have pm: "(2::real) powr (real m) = 2 ^ m" by (simp add: powr_realpow)
  have p2: "(2::real) powr (of_int (- int m)) = 1 / 2 ^ m"
    using pm by (simp add: powr_minus divide_simps)
  have "(2::real) powr (of_int ?k) = 2 powr 52 / 2 powr (real m)"
    by (simp add: powr_diff)
  then have pk: "2 powr (of_int ?k) = 2 ^ 52 / (2::real) ^ m" using pm by simp
  have "(2::real) powr (of_int (?k + 1)) = 2 powr 53 / 2 powr (real m)"
    by (simp add: powr_diff)
  then have pk1: "2 powr (of_int (?k + 1)) = 2 ^ 53 / (2::real) ^ m" using pm by simp
  have "2 ^ 52 / 2 ^ m \<le> x" using lo by (simp add: divide_simps)
  then have xlo: "2 powr (of_int ?k) \<le> x" by (simp only: pk)
  have "x < 2 ^ 53 / 2 ^ m" using hi by (simp add: divide_simps)
  then have xhi: "x < 2 powr (of_int (?k + 1))" by (simp only: pk1)
  have one: "(1::real) < 2" by simp
  have fl: "\<lfloor>log 2 x\<rfloor> = ?k"
    unfolding floor_log_eq_powr_iff[OF pos one] using xlo xhi by simp
  have e: "max (\<lfloor>log 2 \<bar>x\<bar>\<rfloor> - 52) (- 1074) = - int m"
    using fl pos m by simp
  have y: "x / 2 powr (of_int (- int m)) = x * 2 ^ m"
    unfolding p2 by simp
  have n: "rne (x * 2 ^ m) = n" using near by (rule rne_near)
  have nb: "n \<le> 2 ^ 53"
  proof -
    have "of_int 0 \<le> x * 2 ^ m" "x * 2 ^ m \<le> of_int (2 ^ 53)" using lo hi by simp_all
    then have "rne (x * 2 ^ m) \<le> 2 ^ 53" by (rule rne_between(2))
    with n show ?thesis by simp
  qed
  have n0: "0 \<le> n"
  proof -
    have "of_int 0 \<le> x * 2 ^ m" "x * 2 ^ m \<le> of_int (2 ^ 53)" using lo hi by simp_all
    then have "0 \<le> rne (x * 2 ^ m)" by (rule rne_between(1))
    with n show ?thesis by simp
  qed
  have small: "\<bar>of_int n * (1 / 2 ^ m)\<bar> < (2::real) ^ 1024"
  proof -
    have "of_int n * (1 / 2 ^ m) \<le> (of_int n :: real)"
      using n0 by (simp add: divide_simps mult_le_cancel_left1)
    also have "\<dots> \<le> 2 ^ 53" using nb by (metis of_int_le_iff of_int_numeral of_int_power)
    also have "\<dots> < (2::real) ^ 1024" by simp
    finally show ?thesis using n0 by (simp add: abs_mult)
  qed
  show ?thesis
    unfolding round_double_def Let_def e y p2 using pos small r n by simp
qed



subsection \<open>The conversions, quotients and products of the examples\<close>

lemmas string_number_defs =
  StringToNumber_def decimal_text_def decimal_value_def unsigned_part_def is_digit_def
  digits_value_def digit_value_def upt_rec

lemma sn_50000: "StringToNumber ''50000.00'' = Fin (50000)"
  by (simp add: string_number_defs, rule round_double_evalI[where m = 37 and n = 6871947673600000]; simp)

lemma sn_10000: "StringToNumber ''10000.00'' = Fin (10000)"
  by (simp add: string_number_defs, rule round_double_evalI[where m = 39 and n = 5497558138880000]; simp)

lemma sn_500_value: "StringToNumber ''500.0000'' = Fin (500)"
  by (simp add: string_number_defs, rule round_double_evalI[where m = 44 and n = 8796093022208000]; simp)

lemma sn_8000: "StringToNumber ''8000.00'' = Fin (8000)"
  by (simp add: string_number_defs, rule round_double_evalI[where m = 40 and n = 8796093022208000]; simp)

lemma sn_2: "StringToNumber ''2.0000'' = Fin (2)"
  by (simp add: string_number_defs, rule round_double_evalI[where m = 51 and n = 4503599627370496]; simp)

lemma sn_3: "StringToNumber ''3.0000'' = Fin (3)"
  by (simp add: string_number_defs, rule round_double_evalI[where m = 51 and n = 6755399441055744]; simp)

lemma sn_5: "StringToNumber ''5.0000'' = Fin (5)"
  by (simp add: string_number_defs, rule round_double_evalI[where m = 50 and n = 5629499534213120]; simp)


lemma sn_20000: "StringToNumber ''20000.00'' = Fin (20000)"
  by (simp add: string_number_defs, rule round_double_evalI[where m = 38 and n = 5497558138880000]; simp)


lemma sn_0: "StringToNumber ''0.00'' = Fin 0"
  by (simp add: string_number_defs round_double_def)

lemma sn_500_amount: "StringToNumber ''500.00'' = Fin (500)"
  by (simp add: string_number_defs, rule round_double_evalI[where m = 44 and n = 8796093022208000]; simp)

lemma div_2_100: "num_divide (Fin (2)) (Fin (100)) = Fin (5764607523034235 / 288230376151711744)"
  by (simp, rule round_double_evalI[where m = 58 and n = 5764607523034235]; simp)

lemma div_3_100: "num_divide (Fin (3)) (Fin (100)) = Fin (1080863910568919 / 36028797018963968)"
  by (simp, rule round_double_evalI[where m = 58 and n = 8646911284551352]; simp)

lemma div_5_100: "num_divide (Fin (5)) (Fin (100)) = Fin (3602879701896397 / 72057594037927936)"
  by (simp, rule round_double_evalI[where m = 57 and n = 7205759403792794]; simp)


lemma times_8000_2pc: "num_times (Fin (8000)) (Fin (5764607523034235 / 288230376151711744)) = Fin (160)"
  by (simp, rule round_double_evalI[where m = 45 and n = 5629499534213120]; simp)

lemma times_20000_3pc: "num_times (Fin (20000)) (Fin (1080863910568919 / 36028797018963968)) = Fin (600)"
  by (simp, rule round_double_evalI[where m = 43 and n = 5277655813324800]; simp)

lemma times_20000_5pc: "num_times (Fin (20000)) (Fin (3602879701896397 / 72057594037927936)) = Fin (1000)"
  by (simp, rule round_double_evalI[where m = 43 and n = 8796093022208000]; simp)


lemma div_500_8000: "num_divide (Fin (500)) (Fin (8000)) = Fin (1 / 16)"
  by (simp, rule round_double_evalI[where m = 56 and n = 4503599627370496]; simp)

lemma times_q_100: "num_times (Fin (1 / 16)) (Fin (100)) = Fin (25 / 4)"
  by (simp, rule round_double_evalI[where m = 50 and n = 7036874417766400]; simp)

lemma literal_0_05: "round_double (5 / 100) = Fin (3602879701896397 / 72057594037927936)"
  by (rule round_double_evalI[where m = 57 and n = 7205759403792794]; simp)

lemma times_5_005: "num_times (Fin (5)) (Fin (3602879701896397 / 72057594037927936)) = Fin (1 / 4)"
  by (simp, rule round_double_evalI[where m = 54 and n = 4503599627370496]; simp)

section \<open>Which setting wins\<close>

subsection \<open>The scan and the ordered read\<close>

lemma findApplicable_None_iff:
  "findApplicable settings price userRole = None \<longleftrightarrow>
     (\<forall>x \<in> set settings. \<not> (appliesToPrice x price \<and> appliesToRole x userRole))"
  by (induction settings) auto

lemma findApplicable_Some_split:
  "findApplicable settings price userRole = Some s \<Longrightarrow>
     \<exists>pre post. settings = pre @ s # post
       \<and> appliesToPrice s price \<and> appliesToRole s userRole
       \<and> (\<forall>x \<in> set pre. \<not> (appliesToPrice x price \<and> appliesToRole x userRole))"
proof (induction settings)
  case Nil
  then show ?case by simp
next
  case (Cons a settings)
  show ?case
  proof (cases "appliesToPrice a price \<and> appliesToRole a userRole")
    case True
    with Cons.prems have "a = s" by simp
    with True have "a # settings = [] @ s # settings \<and> appliesToPrice s price \<and> appliesToRole s userRole
        \<and> (\<forall>x \<in> set []. \<not> (appliesToPrice x price \<and> appliesToRole x userRole))"
      by simp
    then show ?thesis by blast
  next
    case False
    with Cons.prems have "findApplicable settings price userRole = Some s" by auto
    from Cons.IH[OF this] obtain pre post where
      p: "settings = pre @ s # post" "appliesToPrice s price" "appliesToRole s userRole"
         "\<forall>x \<in> set pre. \<not> (appliesToPrice x price \<and> appliesToRole x userRole)"
      by blast
    with False have "a # settings = (a # pre) @ s # post \<and> appliesToPrice s price \<and> appliesToRole s userRole
        \<and> (\<forall>x \<in> set (a # pre). \<not> (appliesToPrice x price \<and> appliesToRole x userRole))"
      by simp
    then show ?thesis by blast
  qed
qed

lemma orderBy_le_total: "orderBy_le a b \<or> orderBy_le b a"
  by (auto simp: orderBy_le_def)

lemma orderBy_le_refl: "orderBy_le a a"
  by (simp add: orderBy_le_def)

lemma sorted_wrt_split_le:
  assumes "sorted_wrt orderBy_le (pre @ s # post)" and "x \<in> set post"
  shows "orderBy_le s x"
  using assms by (auto simp: sorted_wrt_append)

lemma active_ordered_set:
  "active_ordered table settings \<Longrightarrow> set settings = {x \<in> set table. cs_is_active x}"
  by (metis active_ordered_def mset_eq_setD set_filter)

lemma first_is_least:
  assumes so: "sorted_wrt orderBy_le (pre @ s # post)"
    and pre: "\<forall>x \<in> set pre. \<not> P x"
    and x: "x \<in> set (pre @ s # post)" and Px: "P x"
  shows "orderBy_le s x"
proof -
  from x pre Px have "x = s \<or> x \<in> set post" by auto
  then show ?thesis
    using so orderBy_le_refl by (auto simp: sorted_wrt_append)
qed

lemma sorted_wrt_unique:
  assumes "mset xs = mset ys" "sorted_wrt R xs" "sorted_wrt R ys"
    and anti: "\<And>a b. a \<in> set xs \<Longrightarrow> b \<in> set xs \<Longrightarrow> R a b \<Longrightarrow> R b a \<Longrightarrow> a = b"
  shows "xs = ys"
  using assms
proof (induction xs arbitrary: ys)
  case Nil
  then show ?case by simp
next
  case (Cons x xs zs)
  obtain y ys where zs: "zs = y # ys"
    using Cons.prems(1) by (cases zs) auto
  have sets: "set (x # xs) = set (y # ys)"
    using Cons.prems(1) unfolding zs by (rule mset_eq_setD)
  have "x = y"
  proof (rule ccontr)
    assume ne: "x \<noteq> y"
    with sets have "x \<in> set ys" "y \<in> set xs" by auto
    with Cons.prems(2,3) have "R y x" "R x y" unfolding zs by auto
    moreover have "y \<in> set (x # xs)" "x \<in> set (x # xs)" using sets by auto
    ultimately have "x = y" using Cons.prems(4) by blast
    with ne show False by contradiction
  qed
  moreover have "xs = ys"
  proof (rule Cons.IH)
    show "mset xs = mset ys" using Cons.prems(1) \<open>x = y\<close> unfolding zs by simp
    show "sorted_wrt R xs" using Cons.prems(2) by simp
    show "sorted_wrt R ys" using Cons.prems(3) unfolding zs by simp
    show "\<And>a b. a \<in> set xs \<Longrightarrow> b \<in> set xs \<Longrightarrow> R a b \<Longrightarrow> R b a \<Longrightarrow> a = b"
      using Cons.prems(4) by simp
  qed
  ultimately show ?case unfolding zs by simp
qed

lemma orderBy_le_antisym:
  assumes "orderBy_le a b" "orderBy_le b a"
  shows "cs_priority a = cs_priority b \<and> getTime (cs_created_at a) = getTime (cs_created_at b)"
  using assms by (auto simp: orderBy_le_def)

text \<open>
  Claim C6, for tables in which no two active rows agree in both priority and creation
  time. Then the ordered read has exactly one possible answer, so any two resolutions
  against the unchanged table see the same rows in the same order, find the same setting
  (or none) and return the same breakdown.
\<close>

theorem resolution_deterministic:
  assumes xs: "active_ordered table xs" and ys: "active_ordered table ys"
    and keys: "\<forall>a \<in> set table. \<forall>b \<in> set table.
                 cs_is_active a \<and> cs_is_active b \<and> cs_priority a = cs_priority b
                 \<and> getTime (cs_created_at a) = getTime (cs_created_at b) \<longrightarrow> a = b"
  shows "xs = ys
       \<and> findApplicable xs (tx_price t) (map_option u_role (tx_seller t))
           = findApplicable ys (tx_price t) (map_option u_role (tx_seller t))
       \<and> calculateCommission xs t = calculateCommission ys t"
proof -
  have m: "mset xs = mset ys" using xs ys by (simp add: active_ordered_def)
  have sx: "sorted_wrt orderBy_le xs" and sy: "sorted_wrt orderBy_le ys"
    using xs ys by (simp_all add: active_ordered_def)
  have setx: "set xs = {x \<in> set table. cs_is_active x}"
    using xs by (rule active_ordered_set)
  have "xs = ys"
  proof (rule sorted_wrt_unique[OF m sx sy])
    fix a b assume "a \<in> set xs" "b \<in> set xs" "orderBy_le a b" "orderBy_le b a"
    with setx keys orderBy_le_antisym[of a b] show "a = b" by blast
  qed
  then show ?thesis by simp
qed

lemma default_keys_distinct:
  "\<forall>a \<in> set default_table. \<forall>b \<in> set default_table.
      cs_is_active a \<and> cs_is_active b \<and> cs_priority a = cs_priority b
      \<and> getTime (cs_created_at a) = getTime (cs_created_at b) \<longrightarrow> a = b"
  by (simp add: default_table_def cs_standard_def cs_premium_def cs_economy_def cs_luxury_def)

lemma active_default: "active_ordered default_table default_settings"
proof -
  have f: "filter cs_is_active default_table = default_table"
    by (simp add: default_table_def cs_standard_def cs_premium_def cs_economy_def cs_luxury_def)
  have m: "mset default_settings = mset default_table"
    by (simp add: default_table_def default_settings_def add_mset_commute)
  have s: "sorted_wrt orderBy_le default_settings"
    by (simp add: default_settings_def orderBy_le_def cs_standard_def cs_premium_def cs_economy_def cs_luxury_def clk0_def)
  show ?thesis unfolding active_ordered_def using f m s by simp
qed

lemmas eval_ops = js_times_def js_divide_def appliesToPrice_def appliesToRole_def

lemma find_default_dealer:
  "findApplicable default_settings (tx_price tx1) (map_option u_role (tx_seller tx1)) = Some cs_premium"
  by (simp add: default_settings_def tx1_def eval_ops cs_luxury_def cs_premium_def)

lemma amount_default_dealer:
  "calculateCommission default_settings tx1
     = \<lparr>r_amount = Num (Fin 600), r_percentage = Str ''3.0000'', r_settingId = Some ''cs-premium''\<rparr>"
proof -
  have p: "tx_price tx1 = Str ''20000.00''" by (simp add: tx1_def)
  have a: "js_times (Str ''20000.00'') (js_divide (Str ''3.0000'') (Num (Fin 100))) = Num (Fin 600)"
    by (simp add: js_times_def js_divide_def sn_20000 sn_3 div_3_100 times_20000_3pc
          del: num_times.simps num_divide.simps)
  show ?thesis
    using find_default_dealer a by (simp add: calculateCommission_def p cs_premium_def)
qed

text \<open>
  The settings of \<open>createDefault\<close> have four different priorities, and their ordered
  read is the list \<open>default_settings\<close>. For the loaded transaction \<open>tx1\<close> (price
  20000.00, seller a dealer) every resolution returns the same breakdown, with the fee 600
  of the premium setting.
\<close>

theorem resolution_deterministic_witness:
  "active_ordered default_table default_settings
   \<and> calculateCommission default_settings tx1 = calculateCommission default_settings tx1
   \<and> r_amount (calculateCommission default_settings tx1) = Num (Fin 600)"
proof -
  have h: "active_ordered default_table default_settings" by (rule active_default)
  from resolution_deterministic[OF h h default_keys_distinct, of tx1]
  have "calculateCommission default_settings tx1 = calculateCommission default_settings tx1" by simp
  moreover have "r_amount (calculateCommission default_settings tx1) = Num (Fin 600)"
    by (simp add: amount_default_dealer)
  ultimately show ?thesis using h by simp
qed

text \<open>
  Claim C6 without the condition on the keys. Two active settings with the same priority
  and the same creation time may be read in either order; the first applicable one wins,
  so the same transaction against the same table is charged 600 by one read and 1000 by
  the other.
\<close>

theorem tied_settings_counterexample:
  "active_ordered [cs_tie_a, cs_tie_b] [cs_tie_a, cs_tie_b]
   \<and> active_ordered [cs_tie_a, cs_tie_b] [cs_tie_b, cs_tie_a]
   \<and> calculateCommission [cs_tie_a, cs_tie_b] tx1
       = \<lparr>r_amount = Num (Fin 600), r_percentage = Str ''3.0000'', r_settingId = Some ''cs-tie-a''\<rparr>
   \<and> calculateCommission [cs_tie_b, cs_tie_a] tx1
       = \<lparr>r_amount = Num (Fin 1000), r_percentage = Str ''5.0000'', r_settingId = Some ''cs-tie-b''\<rparr>"
proof -
  have act: "cs_is_active cs_tie_a" "cs_is_active cs_tie_b"
    by (simp_all add: cs_tie_a_def cs_tie_b_def)
  have le: "orderBy_le cs_tie_a cs_tie_b" "orderBy_le cs_tie_b cs_tie_a"
    by (simp_all add: orderBy_le_def cs_tie_a_def cs_tie_b_def)
  have 1: "active_ordered [cs_tie_a, cs_tie_b] [cs_tie_a, cs_tie_b]"
    using act le by (simp add: active_ordered_def)
  have 2: "active_ordered [cs_tie_a, cs_tie_b] [cs_tie_b, cs_tie_a]"
    using act le by (simp add: active_ordered_def add_mset_commute)
  have p: "tx_price tx1 = Str ''20000.00''" "tx_seller tx1 = Some \<lparr>u_id = ''u2'', u_role = DEALER\<rparr>"
    by (simp_all add: tx1_def)
  have a: "js_times (Str ''20000.00'') (js_divide (Str ''3.0000'') (Num (Fin 100))) = Num (Fin 600)"
    by (simp add: js_times_def js_divide_def sn_20000 sn_3 div_3_100 times_20000_3pc
          del: num_times.simps num_divide.simps)
  have b: "js_times (Str ''20000.00'') (js_divide (Str ''5.0000'') (Num (Fin 100))) = Num (Fin 1000)"
    by (simp add: js_times_def js_divide_def sn_20000 sn_5 div_5_100 times_20000_5pc
          del: num_times.simps num_divide.simps)
  have 3: "calculateCommission [cs_tie_a, cs_tie_b] tx1
       = \<lparr>r_amount = Num (Fin 600), r_percentage = Str ''3.0000'', r_settingId = Some ''cs-tie-a''\<rparr>"
    using a by (simp add: calculateCommission_def p appliesToPrice_def appliesToRole_def cs_tie_a_def)
  have 4: "calculateCommission [cs_tie_b, cs_tie_a] tx1
       = \<lparr>r_amount = Num (Fin 1000), r_percentage = Str ''5.0000'', r_settingId = Some ''cs-tie-b''\<rparr>"
    using b by (simp add: calculateCommission_def p appliesToPrice_def appliesToRole_def cs_tie_b_def)
  from 1 2 3 4 show ?thesis by simp
qed

subsection \<open>The percentage reported for a fixed fee\<close>

text \<open>
  Claim C5 at price 0. With the settings of \<open>createDefault\<close> and no seller role, a
  transaction of price 0, given as the number 0 or loaded as the text 0.00, is won by the
  fixed fee of 500 (its only bound is the upper bound 10000). The back-computation then
  divides 500 by 0: the percentage returned is \<open>Infinity\<close>, not a finite number.
\<close>

theorem fixed_fee_zero_price_divides_by_zero:
  "active_ordered default_table default_settings
   \<and> findApplicable default_settings (Num (Fin 0)) None = Some cs_economy
   \<and> findApplicable default_settings (Str ''0.00'') None = Some cs_economy
   \<and> num_divide (Fin 500) (Fin 0) = PosInf
   \<and> calculateCommission default_settings (tx1\<lparr>tx_price := Num (Fin 0), tx_seller := None\<rparr>)
       = \<lparr>r_amount = Str ''500.0000'', r_percentage = Num PosInf, r_settingId = Some ''cs-economy''\<rparr>
   \<and> calculateCommission default_settings (tx1\<lparr>tx_price := Str ''0.00'', tx_seller := None\<rparr>)
       = \<lparr>r_amount = Str ''500.0000'', r_percentage = Num PosInf, r_settingId = Some ''cs-economy''\<rparr>"
proof -
  have f: "findApplicable default_settings (Num (Fin 0)) None = Some cs_economy"
    by (simp add: default_settings_def appliesToPrice_def appliesToRole_def
          cs_luxury_def cs_premium_def cs_economy_def sn_50000 sn_10000)
  have g: "findApplicable default_settings (Str ''0.00'') None = Some cs_economy"
    by (simp add: default_settings_def appliesToPrice_def appliesToRole_def
          cs_luxury_def cs_premium_def cs_economy_def)
  have d: "num_divide (Fin 500) (Fin 0) = PosInf" by (simp add: signed_inf_def)
  have pc: "js_times (js_divide (Str ''500.0000'') (Num (Fin 0))) (Num (Fin 100)) = Num PosInf"
    by (simp add: js_times_def js_divide_def sn_500_value signed_inf_def)
  have pc': "js_times (js_divide (Str ''500.0000'') (Str ''0.00'')) (Num (Fin 100)) = Num PosInf"
    by (simp add: js_times_def js_divide_def sn_500_value sn_0 signed_inf_def)
  have c: "calculateCommission default_settings (tx1\<lparr>tx_price := Num (Fin 0), tx_seller := None\<rparr>)
       = \<lparr>r_amount = Str ''500.0000'', r_percentage = Num PosInf, r_settingId = Some ''cs-economy''\<rparr>"
    using f pc by (simp add: calculateCommission_def cs_economy_def)
  have c': "calculateCommission default_settings (tx1\<lparr>tx_price := Str ''0.00'', tx_seller := None\<rparr>)
       = \<lparr>r_amount = Str ''500.0000'', r_percentage = Num PosInf, r_settingId = Some ''cs-economy''\<rparr>"
    using g pc' by (simp add: calculateCommission_def cs_economy_def)
  from active_default f g d c c' show ?thesis by simp
qed

subsection \<open>A loaded price against the bounds\<close>

lemma decimal_values:
  "decimal_value ''50000.00'' = 50000" "decimal_value ''10000.00'' = 10000"
  "decimal_value ''8000.00'' = 8000" "decimal_value ''0.00'' = 0"
  by (simp_all add: string_number_defs)

text \<open>
  Claim C1 at the price of a loaded transaction. Price and bounds are then both decimal
  text, and \<^verbatim>\<open><\<close> between two strings is the order of text. With the settings of
  \<open>createDefault\<close>, the price 8000.00 and no seller role, the text \<open>8000.00\<close> is not
  below the text \<open>50000.00\<close>, although 8000 is below 50000 as a number: the resolver
  returns the luxury setting, whose lower bound of 50000 the price does not reach, and
  charges 2 percent, 160. The setting that the claim describes, the first in the order of
  the read whose bounds hold for 8000, is the economy setting with its fixed fee; the
  resolver finds it when the same price is given as a number.
\<close>

theorem loaded_price_compared_as_text:
  "active_ordered default_table default_settings
   \<and> cs_min_price cs_luxury = Str ''50000.00''
   \<and> js_lt (Str ''8000.00'') (Str ''50000.00'') = False
   \<and> num_less (ToNumber (Str ''8000.00'')) (ToNumber (Str ''50000.00'')) = True
   \<and> \<not> spec_price_within_bounds cs_luxury 8000
   \<and> spec_price_within_bounds cs_economy 8000
   \<and> findApplicable default_settings (Str ''8000.00'') None = Some cs_luxury
   \<and> findApplicable default_settings (Num (Fin 8000)) None = Some cs_economy
   \<and> calculateCommission default_settings (tx1\<lparr>tx_price := Str ''8000.00'', tx_seller := None\<rparr>)
       = \<lparr>r_amount = Num (Fin 160), r_percentage = Str ''2.0000'', r_settingId = Some ''cs-luxury''\<rparr>"
proof -
  have m: "cs_min_price cs_luxury = Str ''50000.00''" by (simp add: cs_luxury_def)
  have t: "js_lt (Str ''8000.00'') (Str ''50000.00'') = False" by simp
  have n: "num_less (ToNumber (Str ''8000.00'')) (ToNumber (Str ''50000.00'')) = True"
    by (simp add: sn_8000 sn_50000)
  have s1: "\<not> spec_price_within_bounds cs_luxury 8000"
    by (simp add: spec_price_within_bounds_def cs_luxury_def decimal_values)
  have s2: "spec_price_within_bounds cs_economy 8000"
    by (simp add: spec_price_within_bounds_def cs_economy_def decimal_values)
  have f: "findApplicable default_settings (Str ''8000.00'') None = Some cs_luxury"
    by (simp add: default_settings_def appliesToPrice_def appliesToRole_def cs_luxury_def)
  have g: "findApplicable default_settings (Num (Fin 8000)) None = Some cs_economy"
    by (simp add: default_settings_def appliesToPrice_def appliesToRole_def
          cs_luxury_def cs_premium_def cs_economy_def sn_50000 sn_10000)
  have a: "js_times (Str ''8000.00'') (js_divide (Str ''2.0000'') (Num (Fin 100))) = Num (Fin 160)"
    by (simp add: js_times_def js_divide_def sn_8000 sn_2 div_2_100 times_8000_2pc
          del: num_times.simps num_divide.simps)
  have c: "calculateCommission default_settings (tx1\<lparr>tx_price := Str ''8000.00'', tx_seller := None\<rparr>)
       = \<lparr>r_amount = Num (Fin 160), r_percentage = Str ''2.0000'', r_settingId = Some ''cs-luxury''\<rparr>"
    using f a by (simp add: calculateCommission_def cs_luxury_def)
  from active_default m t n s1 s2 f g c show ?thesis by simp
qed

section \<open>The price bounds of a setting\<close>

lemma js_lt_Num_left: "js_lt (Num n) b = num_less n (ToNumber b)"
  by (cases b) simp_all

lemma js_lt_Num_right: "js_lt a (Num n) = num_less (ToNumber a) n"
  by (cases a) simp_all

lemma decimal_text_nonempty: "decimal_text s \<Longrightarrow> s \<noteq> []"
  by (auto simp: decimal_text_def unsigned_part_def)

text \<open>
  Claim C8, as the code has it, for a setting that was loaded (each bound is decimal text
  or \<open>null\<close>) and a price that is a finite number. \<open>appliesToPrice\<close> returns false
  exactly when the lower bound is present and the price is below it, or the upper bound is
  present and the price is above it. A present bound is inclusive: a price equal to both
  bounds applies. A bound stored as 0 is present like any other: under an upper bound of 0
  no price above 0 applies, and over a lower bound of 0 no price below 0 applies.
\<close>

theorem appliesToPrice_bounds:
  assumes lo: "loaded_bound (cs_min_price s)" and hi: "loaded_bound (cs_max_price s)"
  shows "(appliesToPrice s (Num (Fin p)) \<longleftrightarrow>
            \<not> ((\<exists>m. cs_min_price s = Str m \<and> num_less (Fin p) (StringToNumber m))
               \<or> (\<exists>M. cs_max_price s = Str M \<and> num_less (StringToNumber M) (Fin p))))
       \<and> (\<forall>m M. cs_min_price s = Str m \<and> cs_max_price s = Str M
               \<and> StringToNumber m = Fin p \<and> StringToNumber M = Fin p
             \<longrightarrow> appliesToPrice s (Num (Fin p)))
       \<and> (\<forall>M. cs_max_price s = Str M \<and> StringToNumber M = Fin 0 \<and> 0 < p
             \<longrightarrow> \<not> appliesToPrice s (Num (Fin p)))
       \<and> (\<forall>m. cs_min_price s = Str m \<and> StringToNumber m = Fin 0 \<and> p < 0
             \<longrightarrow> \<not> appliesToPrice s (Num (Fin p)))"
proof -
  have tl: "truthy (cs_min_price s) \<longleftrightarrow> (\<exists>m. cs_min_price s = Str m)"
    using lo by (cases "cs_min_price s") (auto simp: loaded_bound_def dest: decimal_text_nonempty)
  have th: "truthy (cs_max_price s) \<longleftrightarrow> (\<exists>M. cs_max_price s = Str M)"
    using hi by (cases "cs_max_price s") (auto simp: loaded_bound_def dest: decimal_text_nonempty)
  have main: "appliesToPrice s (Num (Fin p)) \<longleftrightarrow>
            \<not> ((\<exists>m. cs_min_price s = Str m \<and> num_less (Fin p) (StringToNumber m))
               \<or> (\<exists>M. cs_max_price s = Str M \<and> num_less (StringToNumber M) (Fin p)))"
    unfolding appliesToPrice_def js_lt_Num_left js_lt_Num_right tl th by auto
  show ?thesis unfolding main by auto
qed

lemma loaded_bounds_zero_cap:
  "loaded_bound (cs_min_price cs_zero_cap)" "loaded_bound (cs_max_price cs_zero_cap)"
  by (simp_all add: cs_zero_cap_def loaded_bound_def string_number_defs)

lemma loaded_bounds_zero_both:
  "loaded_bound (cs_min_price (cs_zero_cap\<lparr>cs_min_price := Str ''0.00''\<rparr>))"
  "loaded_bound (cs_max_price (cs_zero_cap\<lparr>cs_min_price := Str ''0.00''\<rparr>))"
  by (simp_all add: cs_zero_cap_def loaded_bound_def string_number_defs)

text \<open>
  A setting with no lower bound and an upper bound stored as 0: the prices 0 and -1 apply,
  the price 5 does not. With its lower bound stored as 0 as well, the price 0, equal to
  both bounds, applies, and the price -1 does not.
\<close>

theorem appliesToPrice_bounds_witness:
  "loaded_bound (cs_min_price cs_zero_cap) \<and> loaded_bound (cs_max_price cs_zero_cap)
   \<and> cs_min_price cs_zero_cap = Null
   \<and> cs_max_price cs_zero_cap = Str ''0.00'' \<and> StringToNumber ''0.00'' = Fin 0
   \<and> appliesToPrice cs_zero_cap (Num (Fin 0))
   \<and> \<not> appliesToPrice cs_zero_cap (Num (Fin 5))
   \<and> appliesToPrice cs_zero_cap (Num (Fin (- 1)))
   \<and> loaded_bound (cs_min_price (cs_zero_cap\<lparr>cs_min_price := Str ''0.00''\<rparr>))
   \<and> loaded_bound (cs_max_price (cs_zero_cap\<lparr>cs_min_price := Str ''0.00''\<rparr>))
   \<and> appliesToPrice (cs_zero_cap\<lparr>cs_min_price := Str ''0.00''\<rparr>) (Num (Fin 0))
   \<and> \<not> appliesToPrice (cs_zero_cap\<lparr>cs_min_price := Str ''0.00''\<rparr>) (Num (Fin (- 1)))"
proof -
  note t = appliesToPrice_bounds[OF loaded_bounds_zero_cap]
  note u = appliesToPrice_bounds[OF loaded_bounds_zero_both]
  have mx: "cs_max_price cs_zero_cap = Str ''0.00''" "cs_min_price cs_zero_cap = Null"
    by (simp_all add: cs_zero_cap_def)
  have mb: "cs_max_price (cs_zero_cap\<lparr>cs_min_price := Str ''0.00''\<rparr>) = Str ''0.00''"
    "cs_min_price (cs_zero_cap\<lparr>cs_min_price := Str ''0.00''\<rparr>) = Str ''0.00''"
    by (simp_all add: cs_zero_cap_def)
  have five: "\<not> appliesToPrice cs_zero_cap (Num (Fin 5))"
    using t[of 5, THEN conjunct2, THEN conjunct2, THEN conjunct1] mx sn_0 by simp
  have zero: "appliesToPrice cs_zero_cap (Num (Fin 0))"
    using t[of 0, THEN conjunct1] mx sn_0 by simp
  have neg: "appliesToPrice cs_zero_cap (Num (Fin (- 1)))"
    using t[of "- 1", THEN conjunct1] mx sn_0 by simp
  have both: "appliesToPrice (cs_zero_cap\<lparr>cs_min_price := Str ''0.00''\<rparr>) (Num (Fin 0))"
    using u[of 0, THEN conjunct2, THEN conjunct1] mb sn_0 by blast
  have below: "\<not> appliesToPrice (cs_zero_cap\<lparr>cs_min_price := Str ''0.00''\<rparr>) (Num (Fin (- 1)))"
    using u[of "- 1", THEN conjunct2, THEN conjunct2, THEN conjunct2] mb sn_0 by simp
  from loaded_bounds_zero_cap loaded_bounds_zero_both mx sn_0 five zero neg both below
  show ?thesis by blast
qed

text \<open>
  Claim C8 says that a bound whose stored value is 0 is treated as absent, so that every
  price would apply to the setting \<open>cs_zero_cap\<close>. Its upper bound is loaded as the text
  \<open>0.00\<close>, which is truthy, so the bound is tested and the price 5 does not apply.
\<close>

theorem zero_bound_tested_counterexample:
  "cs_min_price cs_zero_cap = Null
   \<and> cs_max_price cs_zero_cap = Str ''0.00''
   \<and> decimal_value ''0.00'' = 0
   \<and> appliesToPrice cs_zero_cap (Num (Fin 5)) = False"
  by (simp add: cs_zero_cap_def appliesToPrice_def sn_0 decimal_values)

section \<open>The effective percentage of a commission\<close>

text \<open>
  Claim C9 at a stored percentage of 0. The commission \<open>cm3\<close> is loaded with the
  percentage \<open>0.00\<close>, the amount 500.00 and a transaction of price 8000.00. The claim
  gives amount / price * 100 = 6.25 for it, the stored percentage being zero. The text
  \<open>0.00\<close> is truthy, so \<open>getEffectivePercentage\<close> returns that string and never
  computes the quotient; 6.25 is what it returns when the percentage is \<open>null\<close>.
\<close>

theorem stored_zero_percentage_returned:
  "cm_percentage cm3 = Str ''0.00''
   \<and> decimal_value ''0.00'' = 0
   \<and> getEffectivePercentage cm3 = Str ''0.00''
   \<and> getEffectivePercentage (cm3\<lparr>cm_percentage := Null\<rparr>) = Num (Fin (25 / 4))"
proof -
  have a: "cm_percentage cm3 = Str ''0.00''" by (simp add: cm3_def)
  have b: "getEffectivePercentage cm3 = Str ''0.00''"
    by (simp add: getEffectivePercentage_def cm3_def)
  have q: "js_times (js_divide (Str ''500.00'') (Str ''8000.00'')) (Num (Fin 100)) = Num (Fin (25 / 4))"
    by (simp add: js_times_def js_divide_def sn_500_amount sn_8000 div_500_8000 times_q_100
          del: num_times.simps num_divide.simps)
  have c: "getEffectivePercentage (cm3\<lparr>cm_percentage := Null\<rparr>) = Num (Fin (25 / 4))"
    using q by (simp add: getEffectivePercentage_def cm3_def tx1_def sn_8000)
  from a b c decimal_values show ?thesis by simp
qed

section \<open>The lifecycle of a transaction and the payment of commissions\<close>

subsection \<open>What the schemas say of the patches\<close>

lemmas schema_eval =
  invalid_props_def Transaction_jsonSchema_def Commission_jsonSchema_def Vehicle_jsonSchema_def
  status_name_def vehicle_status_name_def

lemma invalid_cancel:
  "invalid_props fmt Transaction_jsonSchema
     [(''status'', Str (status_name CANCELLED)), (''cancelled_reason'', Str reason),
      (''cancelled_at'', DateObj d)] = {''cancelled_at''}"
  by (simp add: schema_eval)

lemma invalid_complete:
  "invalid_props fmt Transaction_jsonSchema
     [(''status'', Str (status_name COMPLETED)), (''payment_reference'', Str paymentReference),
      (''completed_at'', DateObj d)]
   = (if length paymentReference \<le> 255 then {} else {''payment_reference''}) \<union> {''completed_at''}"
  by (auto simp: schema_eval)

lemma invalid_payBatch:
  "invalid_props fmt Commission_jsonSchema
     [(''is_paid'', Bool True), (''paid_at'', DateObj d), (''payment_reference'', Str paymentReference)]
   = (if length paymentReference \<le> 255 then {} else {''payment_reference''}) \<union> {''paid_at''}"
  by (auto simp: schema_eval)

lemma invalid_process:
  "invalid_props fmt Transaction_jsonSchema [(''status'', Str (status_name PROCESSING))] = {}"
  by (simp add: schema_eval)

lemma cancel_raises:
  "cancel fmt w this reason clk = (Inl (ValidationError {''cancelled_at''}), w)"
  by (simp add: cancel_def patch_def invalid_cancel)

lemma complete_raises:
  "complete_tx fmt w this paymentReference clk =
     (Inl (ValidationError ((if length paymentReference \<le> 255 then {} else {''payment_reference''})
                             \<union> {''completed_at''})), w)"
  by (simp add: complete_tx_def patch_def invalid_complete)

lemma payBatch_raises:
  "payBatch fmt w commissionIds paymentReference clk =
     (Inl (ValidationError ((if length paymentReference \<le> 255 then {} else {''payment_reference''})
                             \<union> {''paid_at''})), w)"
  by (simp add: payBatch_def patch_def invalid_payBatch)

lemma process_writes:
  "process fmt w this clk =
     (Inr (), w\<lparr>transactions :=
                  map (\<lambda>r. if tx_id r = tx_id this
                            then r\<lparr>tx_status := PROCESSING, tx_updated_at := clk 0\<rparr> else r)
                    (transactions w)\<rparr>)"
  by (simp add: process_def patch_def invalid_process transactions_columns_def)

lemma commissions_without_updated_at:
  "patch fmt Commission_jsonSchema commissions_columns [(''is_paid'', Bool True)] sel upd rows
     = (Inl (DBError ''undefined column''), rows)"
  by (simp add: patch_def schema_eval commissions_columns_def)

subsection \<open>Cancelling\<close>

text \<open>
  Claim C3 on the pending transaction \<open>tx1\<close>, whose vehicle is reserved.
  \<open>cancel\<close> patches the transaction with \<^verbatim>\<open>cancelled_at: new Date()\<close>, and the schema
  wants a string or \<open>null\<close> there: the patch is refused with a \<open>ValidationError\<close> on
  \<open>cancelled_at\<close> before anything is written. The transaction stays pending, no reason
  and no time are stored, and the vehicle stays reserved.
\<close>

theorem cancel_raises_validation_error:
  "canBeCancelled tx1
   \<and> tx1 \<in> set (transactions world0)
   \<and> map tx_status (transactions world0) = [PENDING, PENDING]
   \<and> map v_status (vehicles world0) = [RESERVED, AVAILABLE]
   \<and> cancel formats0 world0 tx1 ''buyer withdrew'' clk0
       = (Inl (ValidationError {''cancelled_at''}), world0)"
proof -
  have a: "canBeCancelled tx1" by (simp add: canBeCancelled_def tx1_def)
  have b: "tx1 \<in> set (transactions world0)" by (simp add: world0_def)
  have c: "map tx_status (transactions world0) = [PENDING, PENDING]"
          "map v_status (vehicles world0) = [RESERVED, AVAILABLE]"
    by (simp_all add: world0_def tx1_def veh1_def veh2_def)
  from a b c cancel_raises[of formats0 world0 tx1 "''buyer withdrew''" clk0] show ?thesis by simp
qed

subsection \<open>Completing\<close>

text \<open>
  Claim C2, as the code has it. \<open>canBeCompleted\<close> is true exactly in the status
  processing, but \<open>complete\<close> does not consult it: what \<open>complete\<close> returns and
  leaves in the tables does not depend on the status of the transaction, and it is never an
  \<open>InvalidState\<close> error.
\<close>

theorem complete_without_guard:
  "(canBeCompleted this \<longleftrightarrow> tx_status this = PROCESSING)
   \<and> complete_tx fmt w (this\<lparr>tx_status := st\<rparr>) paymentReference clk
       = complete_tx fmt w this paymentReference clk
   \<and> fst (complete_tx fmt w this paymentReference clk) \<noteq> Inl InvalidState"
  by (simp add: canBeCompleted_def complete_raises)

text \<open>
  On the pending transaction \<open>tx1\<close>: the guard is false, and \<open>complete\<close> does
  the same as it does for that transaction in the status processing.
\<close>

theorem complete_without_guard_witness:
  "canBeCompleted tx1 = False
   \<and> complete_tx formats0 world0 (tx1\<lparr>tx_status := PROCESSING\<rparr>) ''ref-1'' clk0
       = complete_tx formats0 world0 tx1 ''ref-1'' clk0
   \<and> fst (complete_tx formats0 world0 tx1 ''ref-1'' clk0) \<noteq> Inl InvalidState"
proof -
  note t = complete_without_guard[where this = tx1 and fmt = formats0 and w = world0
      and st = PROCESSING and paymentReference = "''ref-1''" and clk = clk0]
  have s: "tx_status tx1 = PENDING" by (simp add: tx1_def)
  have a: "canBeCompleted tx1 = False" using t[THEN conjunct1] s by simp
  from a t[THEN conjunct2] show ?thesis by blast
qed

text \<open>
  Claim C2 on the pending transaction \<open>tx1\<close>. \<open>complete\<close> is not rejected with
  \<open>InvalidState\<close>: it goes on to patch the transaction, and what stops it is the schema,
  which refuses \<^verbatim>\<open>completed_at: new Date()\<close>. The same happens from the status
  processing, where \<open>canBeCompleted\<close> is true.
\<close>

theorem complete_from_pending_counterexample:
  "tx_status tx1 = PENDING
   \<and> canBeCompleted tx1 = False
   \<and> tx1 \<in> set (transactions world0)
   \<and> complete_tx formats0 world0 tx1 ''ref-1'' clk0
       = (Inl (ValidationError {''completed_at''}), world0)
   \<and> fst (complete_tx formats0 world0 tx1 ''ref-1'' clk0) \<noteq> Inl InvalidState
   \<and> canBeCompleted (tx1\<lparr>tx_status := PROCESSING\<rparr>) = True
   \<and> complete_tx formats0 world0 (tx1\<lparr>tx_status := PROCESSING\<rparr>) ''ref-1'' clk0
       = (Inl (ValidationError {''completed_at''}), world0)"
proof -
  have a: "tx_status tx1 = PENDING" "canBeCompleted tx1 = False"
          "canBeCompleted (tx1\<lparr>tx_status := PROCESSING\<rparr>) = True"
    by (simp_all add: tx1_def canBeCompleted_def)
  have b: "tx1 \<in> set (transactions world0)" by (simp add: world0_def)
  have c: "complete_tx formats0 world0 tx1 ''ref-1'' clk0
       = (Inl (ValidationError {''completed_at''}), world0)"
    by (simp add: complete_raises)
  have d: "complete_tx formats0 world0 (tx1\<lparr>tx_status := PROCESSING\<rparr>) ''ref-1'' clk0
       = (Inl (ValidationError {''completed_at''}), world0)"
    by (simp add: complete_raises)
  from a b c d show ?thesis by simp
qed

subsection \<open>Paying a batch of commissions\<close>

text \<open>
  Claim C10 on three commissions of which the second is paid. \<open>payBatch\<close> on the first
  two patches them with \<^verbatim>\<open>paid_at: new Date()\<close>, and the schema wants a string or
  \<open>null\<close> there: the patch is refused with a \<open>ValidationError\<close> on \<open>paid_at\<close>. No
  commission is marked paid and no count is returned, where the claim has the first
  commission marked and the count 1.
\<close>

theorem payBatch_raises_validation_error:
  "map cm_id (commissions world0) = [''c1'', ''c2'', ''c3'']
   \<and> map cm_is_paid (commissions world0) = [False, True, False]
   \<and> payBatch formats0 world0 [''c1'', ''c2''] ''pay-9'' clk0
       = (Inl (ValidationError {''paid_at''}), world0)"
proof -
  have a: "map cm_id (commissions world0) = [''c1'', ''c2'', ''c3'']"
          "map cm_is_paid (commissions world0) = [False, True, False]"
    by (simp_all add: world0_def cm1_def cm2_def cm3_def)
  have b: "payBatch formats0 world0 [''c1'', ''c2''] ''pay-9'' clk0
       = (Inl (ValidationError {''paid_at''}), world0)"
    by (simp add: payBatch_raises)
  from a b show ?thesis by simp
qed

section \<open>Creating a transaction\<close>

subsection \<open>The generated number\<close>










lemma String_nat_2023: "String_nat 2023 = ''2023''"
  by (simp add: String_nat.simps[of 2023] String_nat.simps[of 202] String_nat.simps[of 20] String_nat.simps[of 2] digit_char_def)

lemma String_nat_11_14: "String_nat 11 = ''11''" "String_nat 14 = ''14''"
  by (simp_all add: String_nat.simps[of 11] String_nat.simps[of 14] String_nat.simps[of "Suc 0"] digit_char_def)


lemma number_zero_random: "generateTransactionNumber date0 ''0'' = ''TXN-20231114-''"
  by (simp add: generateTransactionNumber_def date0_def String_nat_2023 String_nat_11_14 padStart_def substring_def toUpperCase_def)

lemma is_random36_examples: "is_random36 ''0.i''" "is_random36 ''0.4fzyo82mvyr''" "is_random36 ''0''"
  by (simp_all add: is_random36_def is_base36_lower_def)


subsection \<open>Inserting\<close>









section \<open>The fee of the winning setting\<close>










end
